theory Spec2Isabelle
  imports Main "HOL-Library.AList"
begin

section \<open>JavaScript values and JSON encoding\<close>

text \<open>
  The hook \<^verbatim>\<open>useWebSocket\<close> (client/src/hooks/useWebSocket.ts) handles values of
  TypeScript type \<^verbatim>\<open>any\<close>: the payload given to \<^verbatim>\<open>sendMessage\<close> and whatever
  \<^verbatim>\<open>JSON.parse\<close> returns for an inbound frame. They are modelled as finite trees.
  \<open>JNum i\<close> stands for the Number with the integer value \<open>i\<close> (a safe integer; other
  Numbers are outside the model), strings are lists of 8-bit code units, and the
  properties of an object are listed in the order JavaScript enumerates them, with
  distinct keys. Cyclic objects, functions and objects with a \<^verbatim>\<open>toJSON\<close> method are
  outside the model.
\<close>

datatype jsval =
    JUndefined
  | JNull
  | JBool bool
  | JNum int
  | JStr string
  | JBigInt int
  | JArr "jsval list"
  | JObj "(string \<times> jsval) list"

datatype exn = TypeError

text \<open>Reading \<^verbatim>\<open>v.k\<close> for a property name that no prototype defines (here
  \<^verbatim>\<open>type\<close> and \<^verbatim>\<open>payload\<close>): an object yields its own property or
  \<^verbatim>\<open>undefined\<close>, a primitive or an array yields \<^verbatim>\<open>undefined\<close>, and
  \<^verbatim>\<open>null\<close> and \<^verbatim>\<open>undefined\<close> throw a TypeError.\<close>

fun nullish :: "jsval \<Rightarrow> bool" where
  "nullish JUndefined = True"
| "nullish JNull = True"
| "nullish _ = False"

fun own_prop :: "jsval \<Rightarrow> string \<Rightarrow> jsval" where
  "own_prop (JObj ps) k = (case map_of ps k of Some v \<Rightarrow> v | None \<Rightarrow> JUndefined)"
| "own_prop _ k = JUndefined"

definition get_member :: "jsval \<Rightarrow> string \<Rightarrow> exn + jsval" where
  "get_member v k = (if nullish v then Inl TypeError else Inr (own_prop v k))"

subsection \<open>\<^verbatim>\<open>JSON.stringify\<close>\<close>

definition digit_char :: "nat \<Rightarrow> char" where
  "digit_char n = ''0123456789abcdef'' ! (n mod 16)"

fun nat_digits :: "nat \<Rightarrow> string" where
  "nat_digits n = (if n < 10 then [digit_char n] else nat_digits (n div 10) @ [digit_char (n mod 10)])"

declare nat_digits.simps [simp del]

definition number_text :: "int \<Rightarrow> string" where
  "number_text i = (if i < 0 then CHR ''-'' # nat_digits (nat (- i)) else nat_digits (nat i))"

text \<open>QuoteJSONString: the two-character escapes, \<^verbatim>\<open>\u00XX\<close> for the other control
  characters, every other code unit as it is.\<close>

definition escape_char :: "char \<Rightarrow> string" where
  "escape_char c =
     (let n = (of_char c :: nat) in
      if n = 0x22 then [CHR 0x5C, CHR 0x22]
      else if n = 0x5C then [CHR 0x5C, CHR 0x5C]
      else if n = 0x08 then [CHR 0x5C, CHR ''b'']
      else if n = 0x09 then [CHR 0x5C, CHR ''t'']
      else if n = 0x0A then [CHR 0x5C, CHR ''n'']
      else if n = 0x0C then [CHR 0x5C, CHR ''f'']
      else if n = 0x0D then [CHR 0x5C, CHR ''r'']
      else if n < 0x20 then [CHR 0x5C, CHR ''u'', CHR ''0'', CHR ''0'', digit_char (n div 16), digit_char (n mod 16)]
      else [c])"

definition quote :: "string \<Rightarrow> string" where
  "quote s = [CHR 0x22] @ concat (map escape_char s) @ [CHR 0x22]"

fun join_comma :: "string list \<Rightarrow> string" where
  "join_comma [] = []"
| "join_comma [s] = s"
| "join_comma (s # t # ss) = s @ '','' @ join_comma (t # ss)"

text \<open>SerializeJSONProperty: \<open>Inr None\<close> is the result \<^verbatim>\<open>undefined\<close> (the property is
  left out of an object, and is \<^verbatim>\<open>null\<close> in an array); a BigInt throws a TypeError,
  which aborts the whole serialisation.\<close>

fun stringify :: "jsval \<Rightarrow> exn + string option"
  and stringify_elems :: "jsval list \<Rightarrow> exn + string list"
  and stringify_props :: "(string \<times> jsval) list \<Rightarrow> exn + string list"
where
  "stringify JUndefined = Inr None"
| "stringify JNull = Inr (Some ''null'')"
| "stringify (JBool b) = Inr (Some (if b then ''true'' else ''false''))"
| "stringify (JNum i) = Inr (Some (number_text i))"
| "stringify (JStr s) = Inr (Some (quote s))"
| "stringify (JBigInt i) = Inl TypeError"
| "stringify (JArr vs) =
     (case stringify_elems vs of
        Inl e \<Rightarrow> Inl e
      | Inr ss \<Rightarrow> Inr (Some (''['' @ join_comma ss @ '']'')))"
| "stringify (JObj ps) =
     (case stringify_props ps of
        Inl e \<Rightarrow> Inl e
      | Inr ms \<Rightarrow> Inr (Some (''{'' @ join_comma ms @ ''}'')))"
| "stringify_elems [] = Inr []"
| "stringify_elems (v # vs) =
     (case stringify v of
        Inl e \<Rightarrow> Inl e
      | Inr r \<Rightarrow>
          (case stringify_elems vs of
             Inl e \<Rightarrow> Inl e
           | Inr ss \<Rightarrow> Inr ((case r of None \<Rightarrow> ''null'' | Some s \<Rightarrow> s) # ss)))"
| "stringify_props [] = Inr []"
| "stringify_props (p # ps) =
     (case stringify (snd p) of
        Inl e \<Rightarrow> Inl e
      | Inr r \<Rightarrow>
          (case stringify_props ps of
             Inl e \<Rightarrow> Inl e
           | Inr ms \<Rightarrow>
               Inr ((case r of None \<Rightarrow> [] | Some s \<Rightarrow> [quote (fst p) @ '':'' @ s]) @ ms)))"

text \<open>\<^verbatim>\<open>JSON.stringify({ type, payload })\<close>, as \<^verbatim>\<open>sendMessage\<close> calls it.\<close>

definition JSON_stringify_message :: "string \<Rightarrow> jsval \<Rightarrow> exn + string option" where
  "JSON_stringify_message ty payload = stringify (JObj [(''type'', JStr ty), (''payload'', payload)])"

text \<open>The values on which \<^verbatim>\<open>JSON.stringify\<close> throws: those that hold a BigInt.\<close>

fun has_bigint :: "jsval \<Rightarrow> bool"
  and has_bigint_elems :: "jsval list \<Rightarrow> bool"
  and has_bigint_props :: "(string \<times> jsval) list \<Rightarrow> bool"
where
  "has_bigint (JBigInt i) = True"
| "has_bigint (JArr vs) = has_bigint_elems vs"
| "has_bigint (JObj ps) = has_bigint_props ps"
| "has_bigint JUndefined = False"
| "has_bigint JNull = False"
| "has_bigint (JBool b) = False"
| "has_bigint (JNum i) = False"
| "has_bigint (JStr s) = False"
| "has_bigint_elems [] = False"
| "has_bigint_elems (v # vs) = (has_bigint v \<or> has_bigint_elems vs)"
| "has_bigint_props [] = False"
| "has_bigint_props (p # ps) = (has_bigint (snd p) \<or> has_bigint_props ps)"

section \<open>The state of the hook and of its environment\<close>

text \<open>A \<^verbatim>\<open>WebSocket\<close> object, as far as the hook reads and drives it: its URL, its
  \<^verbatim>\<open>readyState\<close> and the text frames handed to \<^verbatim>\<open>send\<close>.\<close>

datatype ready_state = CONNECTING | OPEN | CLOSING | CLOSED

record websocket =
  url :: string
  readyState :: ready_state
  sent :: "string list"

text \<open>
  The first five fields are the hook's own: the two \<^verbatim>\<open>useState\<close> cells and the three
  \<^verbatim>\<open>useRef\<close> cells. The registry \<open>messageCallbacksRef\<close> is the \<^verbatim>\<open>Map\<close> from a type tag
  to its array of callbacks, kept as an association list in insertion order; a callback
  is the identity of a function (two registrations of one function carry one number).
  The other fields are the environment: the store of the sockets created so far
  (\<open>socketRef\<close> holds an address of it), the pending timers with the time each is due,
  the clock in milliseconds, \<^verbatim>\<open>window.location\<close>, the console (the fixed text of
  each line logged), and the record \<open>calls\<close> of every callback invocation with its
  argument, in order.
\<close>

record hook =
  isConnected :: bool
  error :: "string option"
  socketRef :: "nat option"
  messageCallbacksRef :: "(string \<times> nat list) list"
  reconnectTimeoutRef :: "nat option"
  sockets :: "nat \<Rightarrow> websocket"
  socket_count :: nat
  timers :: "(nat \<times> nat) list"
  timer_count :: nat
  now :: nat
  location_protocol :: string
  location_host :: string
  console :: "string list"
  calls :: "(nat \<times> jsval) list"

definition console_log :: "string \<Rightarrow> hook \<Rightarrow> hook" where
  "console_log line st = st\<lparr>console := console st @ [line]\<rparr>"

text \<open>\<^verbatim>\<open>setTimeout(f, delay)\<close>: a fresh positive timer id, due \<open>delay\<close> ms from now.
  The only function the hook ever schedules is the reconnect callback, so a timer
  need not say what it runs. \<^verbatim>\<open>clearTimeout(id)\<close> drops the timer if it is pending.\<close>

definition setTimeout :: "nat \<Rightarrow> hook \<Rightarrow> nat \<times> hook" where
  "setTimeout delay st =
     (let t = Suc (timer_count st)
      in (t, st\<lparr>timers := timers st @ [(t, now st + delay)], timer_count := t\<rparr>))"

definition clearTimeout :: "nat \<Rightarrow> hook \<Rightarrow> hook" where
  "clearTimeout t st = st\<lparr>timers := filter (\<lambda>p. fst p \<noteq> t) (timers st)\<rparr>"

text \<open>\<^verbatim>\<open>socket.close()\<close> on an open socket: it is CLOSING until the environment
  delivers the close event. \<^verbatim>\<open>socket.send(text)\<close> hands one frame to the transport.\<close>

definition socket_close :: "nat \<Rightarrow> hook \<Rightarrow> hook" where
  "socket_close s st = st\<lparr>sockets := (sockets st)(s := (sockets st s)\<lparr>readyState := CLOSING\<rparr>)\<rparr>"

definition socket_send :: "nat \<Rightarrow> string \<Rightarrow> hook \<Rightarrow> hook" where
  "socket_send s text st =
     st\<lparr>sockets := (sockets st)(s := (sockets st s)\<lparr>sent := sent (sockets st s) @ [text]\<rparr>)\<rparr>"

definition new_WebSocket :: "string \<Rightarrow> hook \<Rightarrow> nat \<times> hook" where
  "new_WebSocket wsUrl st =
     (let s = socket_count st
      in (s, st\<lparr>sockets := (sockets st)(s := \<lparr>url = wsUrl, readyState = CONNECTING, sent = []\<rparr>),
               socket_count := Suc s\<rparr>))"

section \<open>The subscription registry\<close>

text \<open>\<^verbatim>\<open>messageCallbacksRef.current.get(type) || []\<close> for a string key.\<close>

definition callbacks_for :: "hook \<Rightarrow> string \<Rightarrow> nat list" where
  "callbacks_for st ty = (case map_of (messageCallbacksRef st) ty of Some cs \<Rightarrow> cs | None \<Rightarrow> [])"

text \<open>The same with the key \<^verbatim>\<open>message.type\<close> of an inbound message, which is any
  value: the keys of the registry are strings, so only a string can find a list.\<close>

fun callbacks_for_key :: "hook \<Rightarrow> jsval \<Rightarrow> nat list" where
  "callbacks_for_key st (JStr ty) = callbacks_for st ty"
| "callbacks_for_key st _ = []"

text \<open>\<^verbatim>\<open>addMessageListener(type, callback)\<close> (lines 98 to 111): push the callback on
  the tag's array and store it; the result is the closure over \<open>type\<close> and
  \<open>callback\<close>, whose call is \<open>removeListener\<close>.\<close>

definition addMessageListener :: "string \<Rightarrow> nat \<Rightarrow> hook \<Rightarrow> (string \<times> nat) \<times> hook" where
  "addMessageListener ty callback st =
     (let callbacks = callbacks_for st ty @ [callback]
      in ((ty, callback),
          st\<lparr>messageCallbacksRef := AList.update ty callbacks (messageCallbacksRef st)\<rparr>))"

definition removeListener :: "string \<times> nat \<Rightarrow> hook \<Rightarrow> hook" where
  "removeListener h st =
     (let updatedCallbacks = callbacks_for st (fst h)
      in st\<lparr>messageCallbacksRef :=
            AList.update (fst h) (filter (\<lambda>cb. cb \<noteq> snd h) updatedCallbacks) (messageCallbacksRef st)\<rparr>)"

section \<open>Connecting, and the handlers of a socket\<close>

text \<open>\<^verbatim>\<open>connectWebSocket\<close> (lines 12 to 70). The four handlers it installs do not
  mention the socket they are installed on, so they are functions of the hook's
  state alone; every socket ever created keeps them.\<close>

definition connectWebSocket :: "hook \<Rightarrow> hook" where
  "connectWebSocket st =
     (let st1 = (case reconnectTimeoutRef st of
                   Some t \<Rightarrow> (clearTimeout t st)\<lparr>reconnectTimeoutRef := None\<rparr>
                 | None \<Rightarrow> st);
          st2 = (case socketRef st1 of
                   Some s \<Rightarrow> if readyState (sockets st1 s) = OPEN then socket_close s st1 else st1
                 | None \<Rightarrow> st1);
          protocol = (if location_protocol st2 = ''https:'' then ''wss:'' else ''ws:'');
          wsUrl = protocol @ ''//'' @ location_host st2 @ ''/ws'';
          (socket, st3) = new_WebSocket wsUrl st2
      in st3\<lparr>socketRef := Some socket\<rparr>)"

definition onopen :: "hook \<Rightarrow> hook" where
  "onopen st = (console_log ''WebSocket connection established'' st)\<lparr>isConnected := True, error := None\<rparr>"

datatype outcome = Returns | Throws

text \<open>A subscriber is modelled by its outcome on an argument: it returns or it throws.
  (A subscriber that calls back into the hook while a dispatch is running is outside
  the model.) \<open>forEach\<close> is \<^verbatim>\<open>callbacks.forEach(callback => callback(arg))\<close>: it records
  each invocation, and stops at the first callback that throws; the flag says whether
  the loop ran to its end.\<close>

fun forEach :: "(nat \<Rightarrow> jsval \<Rightarrow> outcome) \<Rightarrow> nat list \<Rightarrow> jsval \<Rightarrow> (nat \<times> jsval) list \<Rightarrow> (nat \<times> jsval) list \<times> bool" where
  "forEach beh [] arg tr = (tr, True)"
| "forEach beh (callback # rest) arg tr =
     (case beh callback arg of
        Returns \<Rightarrow> forEach beh rest arg (tr @ [(callback, arg)])
      | Throws \<Rightarrow> (tr @ [(callback, arg)], False))"

text \<open>\<^verbatim>\<open>socket.onmessage\<close> (lines 36 to 50). The argument is the outcome of
  \<^verbatim>\<open>JSON.parse(event.data)\<close>: \<open>None\<close> when it throws a SyntaxError, the parsed value
  otherwise. The \<^verbatim>\<open>as WsMessage\<close> is a compile-time assertion and checks nothing.
  One \<^verbatim>\<open>try\<close> block holds the parse and both loops; \<open>caught\<close> is its \<^verbatim>\<open>catch\<close>.\<close>

definition caught :: "hook \<Rightarrow> hook" where
  "caught st = console_log ''Error parsing WebSocket message:'' st"

definition onmessage :: "(nat \<Rightarrow> jsval \<Rightarrow> outcome) \<Rightarrow> jsval option \<Rightarrow> hook \<Rightarrow> hook" where
  "onmessage beh parsed st =
     (case parsed of
        None \<Rightarrow> caught st
      | Some message \<Rightarrow>
          (case get_member message ''type'' of
             Inl e \<Rightarrow> caught st
           | Inr ty \<Rightarrow>
               (let callbacks = callbacks_for_key st ty;
                    (tr1, done1) = forEach beh callbacks (own_prop message ''payload'') (calls st);
                    st1 = st\<lparr>calls := tr1\<rparr>
                in if \<not> done1 then caught st1
                   else
                     (let wildcardCallbacks = callbacks_for st1 ''*'';
                          (tr2, done2) = forEach beh wildcardCallbacks message (calls st1);
                          st2 = st1\<lparr>calls := tr2\<rparr>
                      in if \<not> done2 then caught st2 else st2))))"

text \<open>\<^verbatim>\<open>socket.onclose\<close> (lines 52 to 64) with \<^verbatim>\<open>event.code\<close>, and the function it
  schedules (lines 59 to 62).\<close>

definition onclose :: "nat \<Rightarrow> hook \<Rightarrow> hook" where
  "onclose code st =
     (let st1 = (console_log ''WebSocket connection closed'' st)\<lparr>isConnected := False\<rparr>
      in if code \<noteq> 1000 then
           (let st2 = console_log ''Scheduling reconnect attempt...'' st1;
                (t, st3) = setTimeout 2000 st2
            in st3\<lparr>reconnectTimeoutRef := Some t\<rparr>)
         else st1)"

definition reconnect_callback :: "hook \<Rightarrow> hook" where
  "reconnect_callback st = connectWebSocket (console_log ''Attempting to reconnect...'' st)"

definition onerror :: "hook \<Rightarrow> hook" where
  "onerror st = (console_log ''WebSocket error:'' st)\<lparr>error := Some ''Failed to connect to game server''\<rparr>"

text \<open>The cleanup of the effect (lines 77 to 85).\<close>

definition cleanup :: "hook \<Rightarrow> hook" where
  "cleanup st =
     (let st1 = (case reconnectTimeoutRef st of Some t \<Rightarrow> clearTimeout t st | None \<Rightarrow> st)
      in case socketRef st1 of
           Some s \<Rightarrow> if readyState (sockets st1 s) = OPEN then socket_close s st1 else st1
         | None \<Rightarrow> st1)"

section \<open>Sending\<close>

text \<open>\<^verbatim>\<open>sendMessage(type, payload)\<close> (lines 89 to 95). \<open>Inl\<close> is an exception that
  leaves the function; \<^verbatim>\<open>send\<close> turns a non-string argument into a string, hence
  the text for \<^verbatim>\<open>undefined\<close>, which an object never serialises to.\<close>

definition sendMessage :: "string \<Rightarrow> jsval \<Rightarrow> hook \<Rightarrow> exn + bool \<times> hook" where
  "sendMessage ty payload st =
     (case socketRef st of
        Some s \<Rightarrow>
          if readyState (sockets st s) = OPEN then
            (case JSON_stringify_message ty payload of
               Inl e \<Rightarrow> Inl e
             | Inr r \<Rightarrow> Inr (True, socket_send s (case r of Some text \<Rightarrow> text | None \<Rightarrow> ''undefined'') st))
          else Inr (False, st)
      | None \<Rightarrow> Inr (False, st))"

section \<open>Runs of the hook\<close>

text \<open>
  What can happen to a mounted hook: the events of a socket (each carries the socket's
  address), a timer that fires, time that passes, React running the effect or its
  cleanup, and a consumer calling the API. \<open>step\<close> is \<open>None\<close> when the environment
  cannot produce the event in that state: a socket opens only while CONNECTING, delivers
  messages only while OPEN, closes once; a timer fires only while pending and not before
  it is due, and leaves the pending timers as it fires. The environment sets the
  \<^verbatim>\<open>readyState\<close> of a socket before it calls the handler. An exception of
  \<^verbatim>\<open>sendMessage\<close> goes to the consumer that called it; the state stays as it was.
\<close>

datatype event =
    SocketOpen nat
  | SocketMessage nat "jsval option"
  | SocketClose nat nat
  | SocketError nat
  | TimerFires nat
  | Advance nat
  | Mount
  | Unmount
  | Send string jsval
  | Subscribe string nat
  | Unsubscribe string nat

definition set_readyState :: "nat \<Rightarrow> ready_state \<Rightarrow> hook \<Rightarrow> hook" where
  "set_readyState s r st = st\<lparr>sockets := (sockets st)(s := (sockets st s)\<lparr>readyState := r\<rparr>)\<rparr>"

fun step :: "(nat \<Rightarrow> jsval \<Rightarrow> outcome) \<Rightarrow> event \<Rightarrow> hook \<Rightarrow> hook option" where
  "step beh (SocketOpen s) st =
     (if s < socket_count st \<and> readyState (sockets st s) = CONNECTING
      then Some (onopen (set_readyState s OPEN st)) else None)"
| "step beh (SocketMessage s parsed) st =
     (if s < socket_count st \<and> readyState (sockets st s) = OPEN
      then Some (onmessage beh parsed st) else None)"
| "step beh (SocketClose s code) st =
     (if s < socket_count st \<and> readyState (sockets st s) \<noteq> CLOSED
      then Some (onclose code (set_readyState s CLOSED st)) else None)"
| "step beh (SocketError s) st =
     (if s < socket_count st \<and> readyState (sockets st s) \<noteq> CLOSED
      then Some (onerror st) else None)"
| "step beh (TimerFires t) st =
     (case map_of (timers st) t of
        Some due \<Rightarrow> if due \<le> now st then Some (reconnect_callback (clearTimeout t st)) else None
      | None \<Rightarrow> None)"
| "step beh (Advance d) st = Some (st\<lparr>now := now st + d\<rparr>)"
| "step beh Mount st = Some (connectWebSocket st)"
| "step beh Unmount st = Some (cleanup st)"
| "step beh (Send ty payload) st =
     (case sendMessage ty payload st of Inl e \<Rightarrow> Some st | Inr r \<Rightarrow> Some (snd r))"
| "step beh (Subscribe ty callback) st = Some (snd (addMessageListener ty callback st))"
| "step beh (Unsubscribe ty callback) st = Some (removeListener (ty, callback) st)"

fun run :: "(nat \<Rightarrow> jsval \<Rightarrow> outcome) \<Rightarrow> event list \<Rightarrow> hook \<Rightarrow> hook option" where
  "run beh [] st = Some st"
| "run beh (ev # evs) st = (case step beh ev st of None \<Rightarrow> None | Some st' \<Rightarrow> run beh evs st')"

text \<open>The hook before its first effect runs, on a page at the given location.\<close>

definition initial :: "string \<Rightarrow> string \<Rightarrow> hook" where
  "initial protocol host =
     \<lparr>isConnected = False, error = None, socketRef = None, messageCallbacksRef = [],
      reconnectTimeoutRef = None,
      sockets = (\<lambda>s. \<lparr>url = [], readyState = CLOSED, sent = []\<rparr>), socket_count = 0,
      timers = [], timer_count = 0, now = 0,
      location_protocol = protocol, location_host = host, console = [], calls = []\<rparr>"

section \<open>Example states\<close>

text \<open>A hook on an https page with three subscribers: callbacks 1 and 2 under the tag
  \<^verbatim>\<open>chat\<close>, in that order, and callback 3 under the wildcard tag.\<close>

definition chat_subscribers :: hook where
  "chat_subscribers =
     snd (addMessageListener ''*'' 3
       (snd (addMessageListener ''chat'' 2
         (snd (addMessageListener ''chat'' 1 (initial ''https:'' ''bingo.example''))))))"

definition chat_hi :: jsval where
  "chat_hi = JObj [(''type'', JStr ''chat''), (''payload'', JStr ''hi'')]"

text \<open>Subscribers that all return, and subscribers of which callback 1 throws and
  every other one returns.\<close>

definition all_return :: "nat \<Rightarrow> jsval \<Rightarrow> outcome" where
  "all_return c v = Returns"


definition first_throws :: "nat \<Rightarrow> jsval \<Rightarrow> outcome" where
  "first_throws c v = (if c = 1 then Throws else Returns)"

text \<open>A message whose tag is the wildcard tag itself.\<close>

definition star_message :: jsval where
  "star_message = JObj [(''type'', JStr ''*''), (''payload'', JNum 7)]"

text \<open>A frame that is valid JSON and has no \<^verbatim>\<open>type\<close>: \<^verbatim>\<open>{"foo":1}\<close>.\<close>

definition untyped_frame :: jsval where
  "untyped_frame = JObj [(''foo'', JNum 1)]"

text \<open>One callback registered twice under one tag.\<close>

definition twice_subscribed :: hook where
  "twice_subscribed =
     snd (addMessageListener ''chat'' 7
       (snd (addMessageListener ''chat'' 7 (initial ''https:'' ''bingo.example''))))"

text \<open>The hook after its effect ran and the socket it created opened.\<close>

definition open_hook :: hook where
  "open_hook = onopen (set_readyState 0 OPEN (connectWebSocket (initial ''https:'' ''bingo.example'')))"

text \<open>The events that change the registry through the API.\<close>

fun is_unsubscribe :: "event \<Rightarrow> bool" where
  "is_unsubscribe (Unsubscribe ty callback) = True"
| "is_unsubscribe _ = False"

fun is_subscribe :: "event \<Rightarrow> bool" where
  "is_subscribe (Subscribe ty callback) = True"
| "is_subscribe _ = False"

text \<open>
  React's development double invocation of an effect (setup, cleanup, setup) on one
  hook instance, both sockets still CONNECTING, followed by an outage in which each of
  the two sockets reports an abnormal close, half a second apart.
\<close>

definition strict_mode_outage :: "event list" where
  "strict_mode_outage = [Mount, Unmount, Mount, SocketClose 0 1006, Advance 500, SocketClose 1 1006]"

text \<open>One connection that opens, is lost, and is replaced when the timer fires.\<close>

definition abnormal_close_reconnect :: "event list" where
  "abnormal_close_reconnect = [Mount, SocketOpen 0, SocketClose 0 1006, Advance 2000, TimerFires 1]"

text \<open>An invariant of the environment: the ids of the pending timers were all issued,
  that is, none exceeds the counter \<^verbatim>\<open>setTimeout\<close> takes fresh ids from.\<close>

definition timer_ids_issued :: "hook \<Rightarrow> bool" where
  "timer_ids_issued st = list_all (\<lambda>p. fst p \<le> timer_count st) (timers st)"

section \<open>Facts about the registry and the dispatch loop\<close>

lemma callbacks_for_calls [simp]: "callbacks_for (st\<lparr>calls := tr\<rparr>) k = callbacks_for st k"
  by (simp add: callbacks_for_def)

lemma callbacks_for_addMessageListener:
  "callbacks_for (snd (addMessageListener ty cb st)) k =
     (if k = ty then callbacks_for st ty @ [cb] else callbacks_for st k)"
  by (simp add: addMessageListener_def callbacks_for_def Let_def update_conv')

lemma all_return_Returns [simp]: "all_return c v = Returns"
  by (simp add: all_return_def)

lemma chat_subscribers_chat: "callbacks_for chat_subscribers ''chat'' = [1, 2]"
  by (simp add: chat_subscribers_def callbacks_for_addMessageListener)
     (simp add: callbacks_for_def initial_def)

lemma chat_subscribers_wild: "callbacks_for chat_subscribers ''*'' = [3]"
  by (simp add: chat_subscribers_def callbacks_for_addMessageListener)
     (simp add: callbacks_for_def initial_def)

lemma chat_subscribers_calls: "calls chat_subscribers = []"
  by (simp add: chat_subscribers_def addMessageListener_def Let_def initial_def)

lemma forEach_all_return:
  "\<forall>c \<in> set cs. beh c arg = Returns \<Longrightarrow> forEach beh cs arg tr = (tr @ map (\<lambda>c. (c, arg)) cs, True)"
  by (induction cs arbitrary: tr) simp_all

lemma forEach_first_throw:
  "\<forall>c \<in> set pre. beh c arg = Returns \<Longrightarrow> beh c arg = Throws \<Longrightarrow>
   forEach beh (pre @ c # post) arg tr = (tr @ map (\<lambda>c. (c, arg)) (pre @ [c]), False)"
  by (induction pre arbitrary: tr) simp_all

lemma own_prop_not_nullish: "own_prop message k = JStr ty \<Longrightarrow> \<not> nullish message"
  by (cases message) simp_all

lemma onmessage_delivers:
  assumes ty: "own_prop message ''type'' = JStr ty"
    and typed: "\<forall>c \<in> set (callbacks_for st ty). beh c (own_prop message ''payload'') = Returns"
    and wild: "\<forall>c \<in> set (callbacks_for st ''*''). beh c message = Returns"
  shows "onmessage beh (Some message) st =
         st\<lparr>calls := calls st @ map (\<lambda>c. (c, own_prop message ''payload'')) (callbacks_for st ty)
                              @ map (\<lambda>c. (c, message)) (callbacks_for st ''*'')\<rparr>"
proof -
  have nn: "\<not> nullish message" using ty by (rule own_prop_not_nullish)
  show ?thesis
    using nn ty typed wild
    by (simp add: onmessage_def get_member_def forEach_all_return)
qed

lemma count_list_map_pair: "count_list (map fst (map (\<lambda>c. (c, v)) cs)) c = count_list cs c"
  by (induction cs) simp_all

lemma onmessage_typed_throw:
  assumes ty: "own_prop message ''type'' = JStr ty"
    and cs: "callbacks_for st ty = pre @ c # post"
    and pre: "\<forall>p \<in> set pre. beh p (own_prop message ''payload'') = Returns"
    and c: "beh c (own_prop message ''payload'') = Throws"
  shows "onmessage beh (Some message) st =
         caught (st\<lparr>calls := calls st @ map (\<lambda>c. (c, own_prop message ''payload'')) (pre @ [c])\<rparr>)"
proof -
  have nn: "\<not> nullish message" using ty by (rule own_prop_not_nullish)
  show ?thesis
    using nn ty cs pre c
    by (simp add: onmessage_def get_member_def forEach_first_throw)
qed

lemma onmessage_wild_throw:
  assumes ty: "own_prop message ''type'' = JStr ty"
    and typed: "\<forall>p \<in> set (callbacks_for st ty). beh p (own_prop message ''payload'') = Returns"
    and cs: "callbacks_for st ''*'' = pre @ c # post"
    and pre: "\<forall>p \<in> set pre. beh p message = Returns"
    and c: "beh c message = Throws"
  shows "onmessage beh (Some message) st =
         caught (st\<lparr>calls := calls st @ map (\<lambda>c. (c, own_prop message ''payload'')) (callbacks_for st ty)
                                      @ map (\<lambda>c. (c, message)) (pre @ [c])\<rparr>)"
proof -
  have nn: "\<not> nullish message" using ty by (rule own_prop_not_nullish)
  show ?thesis
    using nn ty cs typed pre c
    by (simp add: onmessage_def get_member_def forEach_all_return forEach_first_throw)
qed

lemma onmessage_frame:
  "\<exists>tr lg. onmessage beh parsed st = st\<lparr>console := lg, calls := tr\<rparr>"
proof -
  have c0: "\<exists>tr lg. caught st = st\<lparr>console := lg, calls := tr\<rparr>"
  proof -
    have "caught st = st\<lparr>console := console st @ [''Error parsing WebSocket message:''], calls := calls st\<rparr>"
      by (simp add: caught_def console_log_def)
    then show ?thesis by blast
  qed
  have k: "\<exists>tr lg. st\<lparr>calls := t\<rparr> = st\<lparr>console := lg, calls := tr\<rparr>" for t
  proof -
    have "st\<lparr>calls := t\<rparr> = st\<lparr>console := console st, calls := t\<rparr>" by simp
    then show ?thesis by blast
  qed
  have k2: "\<exists>tr lg. caught (st\<lparr>calls := t\<rparr>) = st\<lparr>console := lg, calls := tr\<rparr>" for t
  proof -
    have "caught (st\<lparr>calls := t\<rparr>) = st\<lparr>console := console st @ [''Error parsing WebSocket message:''], calls := t\<rparr>"
      by (simp add: caught_def console_log_def)
    then show ?thesis by blast
  qed
  show ?thesis
    by (simp add: onmessage_def Let_def c0 k k2 split: option.splits sum.splits prod.splits)
qed

lemma onmessage_untyped:
  assumes nn: "\<not> nullish message"
    and ty: "\<forall>t. own_prop message ''type'' \<noteq> JStr t"
    and wild: "\<forall>c \<in> set (callbacks_for st ''*''). beh c message = Returns"
  shows "onmessage beh (Some message) st =
         st\<lparr>calls := calls st @ map (\<lambda>c. (c, message)) (callbacks_for st ''*'')\<rparr>"
proof -
  have "callbacks_for_key st (own_prop message ''type'') = []"
    using ty by (cases "own_prop message ''type''") simp_all
  then show ?thesis
    using nn wild by (simp add: onmessage_def get_member_def forEach_all_return)
qed

lemma callbacks_for_removeListener:
  "callbacks_for (removeListener (ty, cb) st) k =
     (if k = ty then filter (\<lambda>c. c \<noteq> cb) (callbacks_for st ty) else callbacks_for st k)"
  by (simp add: removeListener_def callbacks_for_def Let_def update_conv')

lemma removeListener_idem:
  "removeListener (ty, cb) (removeListener (ty, cb) st) = removeListener (ty, cb) st"
  by (simp add: removeListener_def callbacks_for_def Let_def update_conv')

lemma filter_single_occurrence:
  "count_list xs x = 1 \<Longrightarrow> filter (\<lambda>c. c \<noteq> x) xs = remove1 x xs"
proof (induction xs)
  case Nil
  then show ?case by simp
next
  case (Cons a xs)
  show ?case
  proof (cases "a = x")
    case True
    with Cons.prems have "count_list xs x = 0" by simp
    then have "x \<notin> set xs" by (simp add: count_list_0_iff)
    then have "filter (\<lambda>c. c \<noteq> x) xs = xs" by (auto simp: filter_id_conv)
    with True show ?thesis by simp
  next
    case False
    with Cons show ?thesis by simp
  qed
qed

lemma twice_subscribed_chat: "callbacks_for twice_subscribed ''chat'' = [7, 7]"
  by (simp add: twice_subscribed_def callbacks_for_addMessageListener)
     (simp add: callbacks_for_def initial_def)

lemma exn_is_TypeError: "(e :: exn) = TypeError"
  by (cases e) simp

lemma stringify_throws:
  "(stringify v = Inl TypeError) = has_bigint v"
  "(stringify_elems vs = Inl TypeError) = has_bigint_elems vs"
  "(stringify_props ps = Inl TypeError) = has_bigint_props ps"
  by (induction v and vs and ps rule: stringify_stringify_elems_stringify_props.induct)
     (auto split: sum.splits simp: exn_is_TypeError)

lemma JSON_stringify_message_throws:
  "(\<exists>e. JSON_stringify_message ty payload = Inl e) = has_bigint payload"
proof -
  have "(\<exists>e. JSON_stringify_message ty payload = Inl e) = (JSON_stringify_message ty payload = Inl TypeError)"
    by (metis exn_is_TypeError)
  also have "\<dots> = has_bigint payload"
    unfolding JSON_stringify_message_def stringify_throws by simp
  finally show ?thesis .
qed

lemma JSON_stringify_message_text:
  "\<not> has_bigint payload \<Longrightarrow> \<exists>text. JSON_stringify_message ty payload = Inr (Some text)"
proof -
  assume "\<not> has_bigint payload"
  then have "\<not> (\<exists>e. JSON_stringify_message ty payload = Inl e)"
    by (simp add: JSON_stringify_message_throws)
  then show ?thesis
    by (auto simp: JSON_stringify_message_def split: sum.splits)
qed

lemma open_hook_socket: "socketRef open_hook = Some 0" "readyState (sockets open_hook 0) = OPEN"
  by (simp_all add: open_hook_def onopen_def console_log_def set_readyState_def connectWebSocket_def
      new_WebSocket_def initial_def Let_def)

lemma open_hook_reachable:
  "run beh [Mount, SocketOpen 0] (initial ''https:'' ''bingo.example'') = Some open_hook"
  by (simp add: open_hook_def connectWebSocket_def new_WebSocket_def initial_def Let_def)

section \<open>Facts about the handlers and about runs\<close>

lemmas handler_defs =
  connectWebSocket_def onopen_def onclose_def onerror_def cleanup_def reconnect_callback_def
  console_log_def setTimeout_def clearTimeout_def socket_close_def new_WebSocket_def
  set_readyState_def caught_def

lemma registry_connectWebSocket [simp]:
  "messageCallbacksRef (connectWebSocket st) = messageCallbacksRef st"
  by (simp add: handler_defs Let_def split: option.splits prod.splits)

lemma registry_reconnect_callback [simp]:
  "messageCallbacksRef (reconnect_callback st) = messageCallbacksRef st"
  by (simp add: reconnect_callback_def console_log_def)

lemma registry_onclose [simp]: "messageCallbacksRef (onclose code st) = messageCallbacksRef st"
  by (simp add: handler_defs Let_def split: prod.splits)

lemma registry_cleanup [simp]: "messageCallbacksRef (cleanup st) = messageCallbacksRef st"
  by (simp add: handler_defs Let_def split: option.splits)

lemma registry_onmessage [simp]: "messageCallbacksRef (onmessage beh parsed st) = messageCallbacksRef st"
proof -
  obtain tr lg where "onmessage beh parsed st = st\<lparr>console := lg, calls := tr\<rparr>"
    using onmessage_frame by blast
  then show ?thesis by simp
qed

lemma registry_sendMessage:
  "sendMessage ty payload st = Inr r \<Longrightarrow> messageCallbacksRef (snd r) = messageCallbacksRef st"
  by (auto simp: sendMessage_def socket_send_def split: option.splits if_splits sum.splits)

lemma registry_onopen [simp]: "messageCallbacksRef (onopen st) = messageCallbacksRef st"
  by (simp add: onopen_def console_log_def)

lemma registry_onerror [simp]: "messageCallbacksRef (onerror st) = messageCallbacksRef st"
  by (simp add: onerror_def console_log_def)

lemma registry_set_readyState [simp]:
  "messageCallbacksRef (set_readyState s r st) = messageCallbacksRef st"
  by (simp add: set_readyState_def)

lemma registry_clearTimeout [simp]: "messageCallbacksRef (clearTimeout t st) = messageCallbacksRef st"
  by (simp add: clearTimeout_def)

lemma registry_step:
  assumes s: "step beh ev st = Some st'" and nu: "\<not> is_unsubscribe ev" and ns: "\<not> is_subscribe ev"
  shows "messageCallbacksRef st' = messageCallbacksRef st"
proof (cases ev)
  case (SocketOpen x)
  with s show ?thesis by (simp split: if_splits) auto
next
  case (SocketMessage x parsed)
  with s show ?thesis by (simp split: if_splits) auto
next
  case (SocketClose x code)
  with s show ?thesis by (simp split: if_splits) auto
next
  case (SocketError x)
  with s show ?thesis by (simp split: if_splits) auto
next
  case (TimerFires t)
  with s show ?thesis by (simp split: option.splits if_splits) auto
next
  case (Advance d)
  with s show ?thesis by auto
next
  case Mount
  with s show ?thesis by auto
next
  case Unmount
  with s show ?thesis by auto
next
  case (Send ty payload)
  with s show ?thesis
    by (cases "sendMessage ty payload st") (auto dest: registry_sendMessage)
next
  case (Subscribe ty cb)
  with ns show ?thesis by simp
next
  case (Unsubscribe ty cb)
  with nu show ?thesis by simp
qed

lemma registry_run:
  "run beh evs st = Some st' \<Longrightarrow> \<forall>ev \<in> set evs. \<not> is_unsubscribe ev \<and> \<not> is_subscribe ev \<Longrightarrow>
   messageCallbacksRef st' = messageCallbacksRef st"
proof (induction evs arbitrary: st)
  case Nil
  then show ?case by simp
next
  case (Cons ev evs)
  from Cons.prems(1) obtain st1 where s: "step beh ev st = Some st1" and r: "run beh evs st1 = Some st'"
    by (auto split: option.splits)
  from Cons.prems(2) have "messageCallbacksRef st1 = messageCallbacksRef st"
    by (intro registry_step [OF s]) simp_all
  moreover from Cons.IH [OF r] Cons.prems(2) have "messageCallbacksRef st' = messageCallbacksRef st1"
    by simp
  ultimately show ?case by simp
qed

lemma entries_step:
  assumes s: "step beh ev st = Some st'" and nu: "\<not> is_unsubscribe ev"
  shows "\<exists>more. callbacks_for st' ty = callbacks_for st ty @ more"
proof (cases "is_subscribe ev")
  case True
  then obtain k cb where ev: "ev = Subscribe k cb" by (cases ev) simp_all
  with s have "st' = snd (addMessageListener k cb st)" by simp
  then have "callbacks_for st' ty = callbacks_for st ty @ (if ty = k then [cb] else [])"
    by (simp add: callbacks_for_addMessageListener)
  then show ?thesis by (rule exI)
next
  case False
  have "messageCallbacksRef st' = messageCallbacksRef st"
    using s nu False by (rule registry_step)
  then have "callbacks_for st' ty = callbacks_for st ty @ []" by (simp add: callbacks_for_def)
  then show ?thesis by (rule exI)
qed

lemma entries_run:
  "run beh evs st = Some st' \<Longrightarrow> \<forall>ev \<in> set evs. \<not> is_unsubscribe ev \<Longrightarrow>
   \<exists>more. callbacks_for st' ty = callbacks_for st ty @ more"
proof (induction evs arbitrary: st)
  case Nil
  then show ?case by simp
next
  case (Cons ev evs)
  from Cons.prems(1) obtain st1 where s: "step beh ev st = Some st1" and r: "run beh evs st1 = Some st'"
    by (auto split: option.splits)
  from Cons.prems(2) obtain m1 where m1: "callbacks_for st1 ty = callbacks_for st ty @ m1"
    using entries_step [OF s] by auto
  from Cons.IH [OF r] Cons.prems(2) obtain m2 where "callbacks_for st' ty = callbacks_for st1 ty @ m2"
    by auto
  with m1 show ?case by simp
qed

lemma abnormal_close_reconnect_runs:
  "map_option socket_count (run all_return abnormal_close_reconnect chat_subscribers) = Some 2"
  by (simp add: abnormal_close_reconnect_def chat_subscribers_def addMessageListener_def
      handler_defs initial_def Let_def)

lemma map_of_fresh_timer:
  "\<forall>p \<in> set ts. fst p \<le> n \<Longrightarrow> map_of (ts @ [(Suc n, due)]) (Suc n) = Some due"
proof -
  assume "\<forall>p \<in> set ts. fst p \<le> n"
  then have "Suc n \<notin> fst ` set ts" by auto
  then have "map_of ts (Suc n) = None" by (simp add: map_of_eq_None_iff)
  then show ?thesis by (simp add: map_add_def)
qed

lemma onclose_clean:
  "onclose 1000 st = (console_log ''WebSocket connection closed'' st)\<lparr>isConnected := False\<rparr>"
  by (simp add: onclose_def Let_def)

lemma onclose_abnormal:
  "code \<noteq> 1000 \<Longrightarrow>
   onclose code st =
     st\<lparr>console := console st @ [''WebSocket connection closed'', ''Scheduling reconnect attempt...''],
        isConnected := False,
        timers := timers st @ [(Suc (timer_count st), now st + 2000)],
        timer_count := Suc (timer_count st),
        reconnectTimeoutRef := Some (Suc (timer_count st))\<rparr>"
  by (simp add: onclose_def console_log_def setTimeout_def Let_def)

lemma connectWebSocket_new_socket:
  "socket_count (connectWebSocket st) = Suc (socket_count st)
   \<and> socketRef (connectWebSocket st) = Some (socket_count st)
   \<and> readyState (sockets (connectWebSocket st) (socket_count st)) = CONNECTING"
  by (simp add: handler_defs Let_def split: option.splits)

lemma open_hook_timers:
  "timers open_hook = []" "timer_count open_hook = 0" "now open_hook = 0" "socket_count open_hook = 1"
  "reconnectTimeoutRef open_hook = None"
  by (simp_all add: open_hook_def handler_defs initial_def Let_def)

lemma timer_ids_issued_iff:
  "timer_ids_issued st = (\<forall>p \<in> set (timers st). fst p \<le> timer_count st)"
  by (simp add: timer_ids_issued_def list_all_iff)

lemma timer_ids_same:
  "timer_ids_issued st \<Longrightarrow> timers st' = timers st \<Longrightarrow> timer_count st' = timer_count st \<Longrightarrow>
   timer_ids_issued st'"
  by (simp add: timer_ids_issued_def)

lemma timer_ids_clearTimeout: "timer_ids_issued st \<Longrightarrow> timer_ids_issued (clearTimeout t st)"
  by (auto simp: timer_ids_issued_iff clearTimeout_def)

lemma timer_ids_connectWebSocket: "timer_ids_issued st \<Longrightarrow> timer_ids_issued (connectWebSocket st)"
  by (auto simp: timer_ids_issued_iff handler_defs Let_def split: option.splits)

lemma timer_ids_onclose: "timer_ids_issued st \<Longrightarrow> timer_ids_issued (onclose code st)"
  by (cases "code = 1000")
     (auto simp: timer_ids_issued_iff onclose_clean onclose_abnormal console_log_def)

lemma timer_ids_cleanup: "timer_ids_issued st \<Longrightarrow> timer_ids_issued (cleanup st)"
  by (auto simp: timer_ids_issued_iff handler_defs Let_def split: option.splits)

lemma timer_ids_onmessage: "timer_ids_issued st \<Longrightarrow> timer_ids_issued (onmessage beh parsed st)"
proof -
  obtain tr lg where "onmessage beh parsed st = st\<lparr>console := lg, calls := tr\<rparr>"
    using onmessage_frame by blast
  then show "timer_ids_issued st \<Longrightarrow> timer_ids_issued (onmessage beh parsed st)"
    by (simp add: timer_ids_issued_def)
qed

lemma timer_ids_sendMessage:
  "timer_ids_issued st \<Longrightarrow> sendMessage ty payload st = Inr r \<Longrightarrow> timer_ids_issued (snd r)"
  by (erule timer_ids_same)
     (auto simp: sendMessage_def socket_send_def split: option.splits if_splits sum.splits)

lemma timer_ids_step:
  assumes wf: "timer_ids_issued st" and s: "step beh ev st = Some st'"
  shows "timer_ids_issued st'"
proof (cases ev)
  case (SocketOpen x)
  with s show ?thesis
    by (intro timer_ids_same [OF wf])
       (auto simp: onopen_def console_log_def set_readyState_def split: if_splits)
next
  case (SocketMessage x parsed)
  with s wf show ?thesis by (auto simp: timer_ids_onmessage split: if_splits)
next
  case (SocketClose x code)
  have "timer_ids_issued (set_readyState x CLOSED st)"
    using wf by (rule timer_ids_same) (simp_all add: set_readyState_def)
  with s SocketClose show ?thesis by (auto simp: timer_ids_onclose split: if_splits)
next
  case (SocketError x)
  with s show ?thesis
    by (intro timer_ids_same [OF wf]) (auto simp: onerror_def console_log_def split: if_splits)
next
  case (TimerFires t)
  have "timer_ids_issued (console_log ''Attempting to reconnect...'' (clearTimeout t st))"
    using timer_ids_clearTimeout [OF wf, of t] by (rule timer_ids_same) (simp_all add: console_log_def)
  then have "timer_ids_issued (reconnect_callback (clearTimeout t st))"
    unfolding reconnect_callback_def by (rule timer_ids_connectWebSocket)
  with s TimerFires show ?thesis by (auto split: option.splits if_splits)
next
  case (Advance d)
  with s show ?thesis by (intro timer_ids_same [OF wf]) auto
next
  case Mount
  with s wf show ?thesis by (auto simp: timer_ids_connectWebSocket)
next
  case Unmount
  with s wf show ?thesis by (auto simp: timer_ids_cleanup)
next
  case (Send ty payload)
  with s wf show ?thesis
    by (cases "sendMessage ty payload st") (auto dest: timer_ids_sendMessage)
next
  case (Subscribe ty cb)
  with s show ?thesis by (intro timer_ids_same [OF wf]) (auto simp: addMessageListener_def Let_def)
next
  case (Unsubscribe ty cb)
  with s show ?thesis by (intro timer_ids_same [OF wf]) (auto simp: removeListener_def Let_def)
qed

lemma timer_ids_run:
  "timer_ids_issued st \<Longrightarrow> run beh evs st = Some st' \<Longrightarrow> timer_ids_issued st'"
proof (induction evs arbitrary: st)
  case Nil
  then show ?case by simp
next
  case (Cons ev evs)
  from Cons.prems(2) obtain st1 where s: "step beh ev st = Some st1" and r: "run beh evs st1 = Some st'"
    by (auto split: option.splits)
  from Cons.prems(1) s have "timer_ids_issued st1" by (rule timer_ids_step)
  then show ?case using r by (rule Cons.IH)
qed

lemma timer_ids_initial: "timer_ids_issued (initial protocol host)"
  by (simp add: timer_ids_issued_def initial_def)


section \<open>Dispatch\<close>

text \<open>
  Claim C1. A decoded inbound message is a parsed value whose \<^verbatim>\<open>type\<close> is a string
  \<open>ty\<close>. When every subscriber concerned returns (a subscriber that throws is the
  subject of claim C5), the handler invokes the callbacks registered under \<open>ty\<close>, each
  once per registration and in the order of the list, with \<^verbatim>\<open>message.payload\<close>, and
  then the callbacks registered under \<^verbatim>\<open>*\<close>, in the order of their list, with the whole
  message; nothing else in the state changes. The order of a list is the order of
  registration: \<^verbatim>\<open>addMessageListener\<close> appends.
\<close>

theorem dispatch_registration_order:
  assumes "own_prop message ''type'' = JStr ty"
    and "\<forall>c \<in> set (callbacks_for st ty). beh c (own_prop message ''payload'') = Returns"
    and "\<forall>c \<in> set (callbacks_for st ''*''). beh c message = Returns"
  shows "onmessage beh (Some message) st =
           st\<lparr>calls := calls st
                  @ map (\<lambda>c. (c, own_prop message ''payload'')) (callbacks_for st ty)
                  @ map (\<lambda>c. (c, message)) (callbacks_for st ''*'')\<rparr>
         \<and> callbacks_for (snd (addMessageListener ty callback st)) ty = callbacks_for st ty @ [callback]"
  using assms by (simp add: onmessage_delivers callbacks_for_addMessageListener)

theorem dispatch_registration_order_witness:
  "own_prop chat_hi ''type'' = JStr ''chat''
   \<and> callbacks_for chat_subscribers ''chat'' = [1, 2]
   \<and> callbacks_for chat_subscribers ''*'' = [3]
   \<and> calls (onmessage all_return (Some chat_hi) chat_subscribers)
       = [(1, JStr ''hi''), (2, JStr ''hi''), (3, chat_hi)]"
proof -
  have ty: "own_prop chat_hi ''type'' = JStr ''chat''" by (simp add: chat_hi_def)
  have pl: "own_prop chat_hi ''payload'' = JStr ''hi''" by (simp add: chat_hi_def)
  have typed: "\<forall>c \<in> set (callbacks_for chat_subscribers ''chat''). all_return c (own_prop chat_hi ''payload'') = Returns"
    by simp
  have wild: "\<forall>c \<in> set (callbacks_for chat_subscribers ''*''). all_return c chat_hi = Returns"
    by simp
  from dispatch_registration_order [of chat_hi "''chat''" chat_subscribers all_return] ty typed wild
  have "calls (onmessage all_return (Some chat_hi) chat_subscribers)
        = [(1, JStr ''hi''), (2, JStr ''hi''), (3, chat_hi)]"
    by (simp add: chat_subscribers_chat chat_subscribers_wild chat_subscribers_calls pl)
  with ty show ?thesis by (simp add: chat_subscribers_chat chat_subscribers_wild)
qed

text \<open>
  Claim C10. A message whose \<^verbatim>\<open>type\<close> is the string \<^verbatim>\<open>*\<close> finds the wildcard list
  twice: the lookup by type delivers \<^verbatim>\<open>message.payload\<close> to every callback of that
  list, and the wildcard lookup then delivers the whole message to every one of them
  again. So, when these subscribers return, the invocations added by the dispatch hold
  each callback twice as often as the wildcard list does.
\<close>

theorem wildcard_tag_delivered_twice:
  assumes "own_prop message ''type'' = JStr ''*''"
    and "\<forall>c \<in> set (callbacks_for st ''*'').
           beh c (own_prop message ''payload'') = Returns \<and> beh c message = Returns"
  shows "calls (onmessage beh (Some message) st) =
           calls st @ map (\<lambda>c. (c, own_prop message ''payload'')) (callbacks_for st ''*'')
                    @ map (\<lambda>c. (c, message)) (callbacks_for st ''*'')
         \<and> count_list (map fst (drop (length (calls st)) (calls (onmessage beh (Some message) st)))) callback
             = 2 * count_list (callbacks_for st ''*'') callback"
proof -
  have typed: "\<forall>c \<in> set (callbacks_for st ''*''). beh c (own_prop message ''payload'') = Returns"
    using assms(2) by simp
  have wild: "\<forall>c \<in> set (callbacks_for st ''*''). beh c message = Returns"
    using assms(2) by simp
  show ?thesis
    by (simp add: onmessage_delivers [OF assms(1) typed wild] count_list_map_pair
        del: map_map)
qed

theorem wildcard_tag_delivered_twice_witness:
  "own_prop star_message ''type'' = JStr ''*''
   \<and> callbacks_for chat_subscribers ''*'' = [3]
   \<and> calls (onmessage all_return (Some star_message) chat_subscribers)
       = [(3, JNum 7), (3, star_message)]"
proof -
  have ty: "own_prop star_message ''type'' = JStr ''*''" by (simp add: star_message_def)
  have pl: "own_prop star_message ''payload'' = JNum 7" by (simp add: star_message_def)
  have h: "\<forall>c \<in> set (callbacks_for chat_subscribers ''*'').
             all_return c (own_prop star_message ''payload'') = Returns
             \<and> all_return c star_message = Returns"
    by simp
  from wildcard_tag_delivered_twice [of star_message chat_subscribers all_return] ty h
  have "calls (onmessage all_return (Some star_message) chat_subscribers)
        = [(3, JNum 7), (3, star_message)]"
    by (simp add: chat_subscribers_wild chat_subscribers_calls pl)
  with ty show ?thesis by (simp add: chat_subscribers_wild)
qed

section \<open>A subscriber that throws\<close>

text \<open>
  Claim C5, as stated, fails. The parse and both loops stand in one \<^verbatim>\<open>try\<close> block,
  so the first exception ends the delivery of that message. With callbacks 1 and 2
  under \<^verbatim>\<open>chat\<close> and callback 3 under \<^verbatim>\<open>*\<close>, where callback 1 throws, a
  \<^verbatim>\<open>chat\<close> message reaches callback 1 only: neither callback 2, the rest of the
  tag's list, nor callback 3, the wildcard subscriber, is invoked.
\<close>

theorem throwing_subscriber_counterexample:
  "callbacks_for chat_subscribers ''chat'' = [1, 2]
   \<and> callbacks_for chat_subscribers ''*'' = [3]
   \<and> first_throws 1 (JStr ''hi'') = Throws
   \<and> calls chat_subscribers = []
   \<and> calls (onmessage first_throws (Some chat_hi) chat_subscribers) = [(1, JStr ''hi'')]"
proof -
  have ty: "own_prop chat_hi ''type'' = JStr ''chat''" by (simp add: chat_hi_def)
  have pl: "own_prop chat_hi ''payload'' = JStr ''hi''" by (simp add: chat_hi_def)
  have cs: "callbacks_for chat_subscribers ''chat'' = [] @ 1 # [2]"
    by (simp add: chat_subscribers_chat)
  have c: "first_throws 1 (own_prop chat_hi ''payload'') = Throws" by (simp add: first_throws_def)
  have "calls (onmessage first_throws (Some chat_hi) chat_subscribers) = [(1, JStr ''hi'')]"
    using onmessage_typed_throw [of chat_hi "''chat''" chat_subscribers "[]" 1 "[2]" first_throws] ty cs c
    by (simp add: caught_def console_log_def chat_subscribers_calls pl)
  then show ?thesis
    by (simp add: chat_subscribers_chat chat_subscribers_wild chat_subscribers_calls first_throws_def)
qed

text \<open>
  Claim C5, amended. When a subscriber throws during the dispatch of a message, the
  handler catches the exception (it logs it, and nothing else of the state changes), and
  the delivery stops there: the callbacks before it in its list have been invoked, the
  ones after it are not; when it stands in the tag's list, no wildcard subscriber is
  invoked; when it stands in the wildcard list, the whole tag's list has been served.
\<close>

theorem throwing_subscriber_stops_delivery:
  assumes "own_prop message ''type'' = JStr ty"
  shows "(callbacks_for st ty = pre @ c # post
          \<and> (\<forall>p \<in> set pre. beh p (own_prop message ''payload'') = Returns)
          \<and> beh c (own_prop message ''payload'') = Throws
          \<longrightarrow> onmessage beh (Some message) st =
                caught (st\<lparr>calls := calls st
                  @ map (\<lambda>c. (c, own_prop message ''payload'')) (pre @ [c])\<rparr>))
       \<and> ((\<forall>p \<in> set (callbacks_for st ty). beh p (own_prop message ''payload'') = Returns)
          \<and> callbacks_for st ''*'' = pre @ c # post
          \<and> (\<forall>p \<in> set pre. beh p message = Returns)
          \<and> beh c message = Throws
          \<longrightarrow> onmessage beh (Some message) st =
                caught (st\<lparr>calls := calls st
                  @ map (\<lambda>c. (c, own_prop message ''payload'')) (callbacks_for st ty)
                  @ map (\<lambda>c. (c, message)) (pre @ [c])\<rparr>))"
  using assms onmessage_typed_throw onmessage_wild_throw by blast

theorem throwing_subscriber_stops_delivery_witness:
  "own_prop chat_hi ''type'' = JStr ''chat''
   \<and> callbacks_for chat_subscribers ''chat'' = [] @ 1 # [2]
   \<and> first_throws 1 (own_prop chat_hi ''payload'') = Throws
   \<and> onmessage first_throws (Some chat_hi) chat_subscribers =
       caught (chat_subscribers\<lparr>calls := [(1, JStr ''hi'')]\<rparr>)"
proof -
  have ty: "own_prop chat_hi ''type'' = JStr ''chat''" by (simp add: chat_hi_def)
  have pl: "own_prop chat_hi ''payload'' = JStr ''hi''" by (simp add: chat_hi_def)
  have cs: "callbacks_for chat_subscribers ''chat'' = [] @ 1 # [2]"
    by (simp add: chat_subscribers_chat)
  have c: "first_throws 1 (own_prop chat_hi ''payload'') = Throws" by (simp add: first_throws_def)
  from throwing_subscriber_stops_delivery [OF ty, of chat_subscribers "[]" 1 "[2]" first_throws] cs c
  have "onmessage first_throws (Some chat_hi) chat_subscribers =
       caught (chat_subscribers\<lparr>calls := [(1, JStr ''hi'')]\<rparr>)"
    by (simp add: chat_subscribers_calls pl)
  with ty cs c show ?thesis by simp
qed

section \<open>Frames that do not decode\<close>

text \<open>
  Claim C6, as stated, fails. Nothing checks the shape of what \<^verbatim>\<open>JSON.parse\<close>
  returns. The frame \<^verbatim>\<open>{"foo":1}\<close> has no \<^verbatim>\<open>type\<close>, so it does not parse into
  the shape of a message; it is not dropped: the wildcard subscriber, callback 3, is
  invoked with it.
\<close>

theorem malformed_frame_counterexample:
  "own_prop untyped_frame ''type'' = JUndefined
   \<and> calls chat_subscribers = []
   \<and> calls (onmessage all_return (Some untyped_frame) chat_subscribers) = [(3, untyped_frame)]"
proof -
  have ty: "\<forall>t. own_prop untyped_frame ''type'' \<noteq> JStr t" by (simp add: untyped_frame_def)
  have nn: "\<not> nullish untyped_frame" by (simp add: untyped_frame_def)
  have "calls (onmessage all_return (Some untyped_frame) chat_subscribers) = [(3, untyped_frame)]"
    using onmessage_untyped [of untyped_frame chat_subscribers all_return] ty nn
    by (simp add: chat_subscribers_wild chat_subscribers_calls)
  then show ?thesis by (simp add: chat_subscribers_calls) (simp add: untyped_frame_def)
qed

text \<open>
  Claim C6, amended. A frame on which \<^verbatim>\<open>JSON.parse\<close> throws, or which parses to
  \<^verbatim>\<open>null\<close>, is dropped: no callback is invoked and the state is as before but for
  the line logged. No frame at all, whatever it parses to, changes the connection
  status, the error, the current socket, any socket's state, the timers or the registry.
  A frame that parses to another value without a string \<^verbatim>\<open>type\<close> is not dropped: the
  wildcard subscribers (taken to return) are invoked with the parsed value.
\<close>

theorem unparsable_frame_dropped:
  "(parsed = None \<or> parsed = Some JNull \<longrightarrow>
      onmessage beh parsed st = st\<lparr>console := console st @ [''Error parsing WebSocket message:'']\<rparr>
      \<and> calls (onmessage beh parsed st) = calls st)
   \<and> isConnected (onmessage beh parsed st) = isConnected st
   \<and> error (onmessage beh parsed st) = error st
   \<and> socketRef (onmessage beh parsed st) = socketRef st
   \<and> sockets (onmessage beh parsed st) = sockets st
   \<and> timers (onmessage beh parsed st) = timers st
   \<and> reconnectTimeoutRef (onmessage beh parsed st) = reconnectTimeoutRef st
   \<and> messageCallbacksRef (onmessage beh parsed st) = messageCallbacksRef st
   \<and> (\<forall>message. parsed = Some message \<and> \<not> nullish message
         \<and> (\<forall>t. own_prop message ''type'' \<noteq> JStr t)
         \<and> (\<forall>c \<in> set (callbacks_for st ''*''). beh c message = Returns)
        \<longrightarrow> calls (onmessage beh parsed st) = calls st @ map (\<lambda>c. (c, message)) (callbacks_for st ''*''))"
proof -
  obtain tr lg where eq: "onmessage beh parsed st = st\<lparr>console := lg, calls := tr\<rparr>"
    using onmessage_frame by blast
  have drop: "onmessage beh parsed st = st\<lparr>console := console st @ [''Error parsing WebSocket message:'']\<rparr>"
    if "parsed = None \<or> parsed = Some JNull"
    using that by (auto simp: onmessage_def get_member_def caught_def console_log_def)
  have untyped: "calls (onmessage beh parsed st) = calls st @ map (\<lambda>c. (c, message)) (callbacks_for st ''*'')"
    if "parsed = Some message" "\<not> nullish message" "\<forall>t. own_prop message ''type'' \<noteq> JStr t"
       "\<forall>c \<in> set (callbacks_for st ''*''). beh c message = Returns" for message
    using that by (simp add: onmessage_untyped)
  show ?thesis
    using drop untyped by (simp add: eq)
qed

theorem unparsable_frame_dropped_witness:
  "onmessage first_throws None chat_subscribers
     = chat_subscribers\<lparr>console := console chat_subscribers @ [''Error parsing WebSocket message:'']\<rparr>
   \<and> calls (onmessage first_throws None chat_subscribers) = []
   \<and> calls (onmessage all_return (Some untyped_frame) chat_subscribers) = [(3, untyped_frame)]"
proof -
  have ty: "\<forall>t. own_prop untyped_frame ''type'' \<noteq> JStr t" by (simp add: untyped_frame_def)
  have nn: "\<not> nullish untyped_frame" by (simp add: untyped_frame_def)
  have a: "onmessage first_throws None chat_subscribers
     = chat_subscribers\<lparr>console := console chat_subscribers @ [''Error parsing WebSocket message:'']\<rparr>
   \<and> calls (onmessage first_throws None chat_subscribers) = []"
    using unparsable_frame_dropped [of None first_throws chat_subscribers]
    by (simp add: chat_subscribers_calls)
  have b: "calls (onmessage all_return (Some untyped_frame) chat_subscribers) = [(3, untyped_frame)]"
    using unparsable_frame_dropped [of "Some untyped_frame" all_return chat_subscribers] ty nn
    by (simp add: chat_subscribers_calls chat_subscribers_wild)
  from a b show ?thesis by (simp add: chat_subscribers_calls)
qed

section \<open>Unsubscribing\<close>

text \<open>
  Claim C3, as stated, fails. The handle filters the tag's list by identity of the
  callback, so it removes every registration of that callback under the tag, not only
  the one its own \<^verbatim>\<open>addMessageListener\<close> call appended. After the same callback 7 was
  registered twice under \<^verbatim>\<open>chat\<close>, invoking the first handle leaves no entry, where
  the claim keeps the second registration.
\<close>

theorem unsubscribe_duplicates_counterexample:
  "callbacks_for twice_subscribed ''chat'' = [7, 7]
   \<and> fst (addMessageListener ''chat'' 7 (initial ''https:'' ''bingo.example'')) = (''chat'', 7)
   \<and> callbacks_for (removeListener (''chat'', 7) twice_subscribed) ''chat'' = []"
  by (simp add: callbacks_for_removeListener twice_subscribed_chat)
     (simp add: addMessageListener_def Let_def)

text \<open>
  Claim C3, amended. The handle returned by \<^verbatim>\<open>addMessageListener(ty, cb)\<close> is the
  closure over \<open>ty\<close> and \<open>cb\<close>. Invoked in any later state, it removes from the list of
  \<open>ty\<close> every entry that is \<open>cb\<close> and keeps the other entries in their order: exactly
  one entry when \<open>cb\<close> stands once in the list, all of them when it was registered
  several times. The lists of the other tags and the rest of the state stay as they
  are, and invoking the handle again changes nothing.
\<close>

theorem unsubscribe_removes_by_identity:
  "fst (addMessageListener ty cb st0) = (ty, cb)
   \<and> callbacks_for (removeListener (ty, cb) st) ty = filter (\<lambda>c. c \<noteq> cb) (callbacks_for st ty)
   \<and> (count_list (callbacks_for st ty) cb = 1 \<longrightarrow>
        callbacks_for (removeListener (ty, cb) st) ty = remove1 cb (callbacks_for st ty))
   \<and> (k \<noteq> ty \<longrightarrow> callbacks_for (removeListener (ty, cb) st) k = callbacks_for st k)
   \<and> removeListener (ty, cb) (removeListener (ty, cb) st) = removeListener (ty, cb) st
   \<and> removeListener (ty, cb) st = st\<lparr>messageCallbacksRef := messageCallbacksRef (removeListener (ty, cb) st)\<rparr>"
  by (simp add: callbacks_for_removeListener removeListener_idem filter_single_occurrence)
     (simp add: addMessageListener_def removeListener_def Let_def)

theorem unsubscribe_removes_by_identity_witness:
  "count_list (callbacks_for chat_subscribers ''chat'') 1 = 1
   \<and> callbacks_for (removeListener (''chat'', 1) chat_subscribers) ''chat'' = [2]
   \<and> ''*'' \<noteq> ''chat''
   \<and> callbacks_for (removeListener (''chat'', 1) chat_subscribers) ''*'' = [3]"
  using unsubscribe_removes_by_identity [of "''chat''" 1 chat_subscribers chat_subscribers "''*''"]
  by (simp add: chat_subscribers_chat chat_subscribers_wild)

section \<open>Sending\<close>

text \<open>
  Claim C4. \<^verbatim>\<open>sendMessage\<close> returns \<^verbatim>\<open>false\<close> and leaves the whole state, hence
  every socket's frames, as it is when no socket was ever created and when the current
  socket is not OPEN. When the current socket is OPEN and the message can be encoded
  (the payload holds no BigInt; see claim C8 for the other payloads), it returns
  \<^verbatim>\<open>true\<close> and hands the text of \<^verbatim>\<open>JSON.stringify({ type, payload })\<close> to that
  socket, after the frames sent before.
\<close>

theorem send_gate:
  "(socketRef st = None \<longrightarrow> sendMessage ty payload st = Inr (False, st))
   \<and> (socketRef st = Some s \<and> readyState (sockets st s) \<noteq> OPEN \<longrightarrow>
        sendMessage ty payload st = Inr (False, st))
   \<and> (socketRef st = Some s \<and> readyState (sockets st s) = OPEN \<and> \<not> has_bigint payload \<longrightarrow>
        (\<exists>text. JSON_stringify_message ty payload = Inr (Some text)
           \<and> sendMessage ty payload st = Inr (True, socket_send s text st)
           \<and> sent (sockets (socket_send s text st) s) = sent (sockets st s) @ [text]))"
proof -
  have "\<exists>text. JSON_stringify_message ty payload = Inr (Some text)
           \<and> sendMessage ty payload st = Inr (True, socket_send s text st)
           \<and> sent (sockets (socket_send s text st) s) = sent (sockets st s) @ [text]"
    if h: "socketRef st = Some s" "readyState (sockets st s) = OPEN" and nb: "\<not> has_bigint payload"
  proof -
    obtain frame where "JSON_stringify_message ty payload = Inr (Some frame)"
      using JSON_stringify_message_text [OF nb] by blast
    with h show ?thesis by (simp add: sendMessage_def socket_send_def)
  qed
  then show ?thesis by (simp add: sendMessage_def)
qed

theorem send_gate_witness:
  "socketRef (initial ''https:'' ''bingo.example'') = None
   \<and> sendMessage ''mark'' (JNum 5) (initial ''https:'' ''bingo.example'')
       = Inr (False, initial ''https:'' ''bingo.example'')
   \<and> socketRef open_hook = Some 0 \<and> readyState (sockets open_hook 0) = OPEN
   \<and> \<not> has_bigint (JNum 5)
   \<and> JSON_stringify_message ''mark'' (JNum 5) = Inr (Some ''{\"type\":\"mark\",\"payload\":5}'')
   \<and> sendMessage ''mark'' (JNum 5) open_hook
       = Inr (True, socket_send 0 ''{\"type\":\"mark\",\"payload\":5}'' open_hook)"
proof -
  have enc: "JSON_stringify_message ''mark'' (JNum 5) = Inr (Some ''{\"type\":\"mark\",\"payload\":5}'')"
    by code_simp
  have none: "socketRef (initial ''https:'' ''bingo.example'') = None" by (simp add: initial_def)
  have a: "sendMessage ''mark'' (JNum 5) (initial ''https:'' ''bingo.example'')
       = Inr (False, initial ''https:'' ''bingo.example'')"
    using send_gate [of "initial ''https:'' ''bingo.example''" "''mark''" "JNum 5"] none by simp
  have b: "sendMessage ''mark'' (JNum 5) open_hook
       = Inr (True, socket_send 0 ''{\"type\":\"mark\",\"payload\":5}'' open_hook)"
    using send_gate [of open_hook "''mark''" "JNum 5" 0] open_hook_socket enc by simp
  from none a b enc open_hook_socket show ?thesis by simp
qed

text \<open>
  Claim C8, as stated, fails. \<^verbatim>\<open>sendMessage\<close> calls \<^verbatim>\<open>JSON.stringify\<close> outside any
  \<^verbatim>\<open>try\<close>, and \<^verbatim>\<open>JSON.stringify\<close> throws a TypeError on a BigInt. On an open
  socket, the payload \<^verbatim>\<open>5n\<close> makes \<^verbatim>\<open>sendMessage\<close> throw.
\<close>

theorem send_throws_counterexample:
  "socketRef open_hook = Some 0 \<and> readyState (sockets open_hook 0) = OPEN
   \<and> sendMessage ''mark'' (JBigInt 5) open_hook = Inl TypeError"
  by (simp add: open_hook_socket sendMessage_def JSON_stringify_message_def)

text \<open>
  Claim C8, amended. \<^verbatim>\<open>sendMessage\<close> throws exactly when the current socket is OPEN
  and \<^verbatim>\<open>JSON.stringify\<close> throws on the message, which it does exactly when the
  payload holds a BigInt. In every other case it returns its boolean: it never throws
  while the connection is not open, whatever the type and the payload.
\<close>

theorem send_throws_iff_encoding_throws:
  "(\<exists>e. sendMessage ty payload st = Inl e)
     = ((\<exists>s. socketRef st = Some s \<and> readyState (sockets st s) = OPEN) \<and> has_bigint payload)"
proof -
  have "(\<exists>e. sendMessage ty payload st = Inl e)
     = ((\<exists>s. socketRef st = Some s \<and> readyState (sockets st s) = OPEN)
        \<and> (\<exists>e. JSON_stringify_message ty payload = Inl e))"
    by (auto simp: sendMessage_def split: option.splits sum.splits if_splits)
  then show ?thesis by (simp add: JSON_stringify_message_throws)
qed

theorem send_throws_iff_encoding_throws_witness:
  "socketRef open_hook = Some 0 \<and> readyState (sockets open_hook 0) = OPEN
   \<and> has_bigint (JArr [JNum 1, JBigInt 5])
   \<and> sendMessage ''mark'' (JArr [JNum 1, JBigInt 5]) open_hook = Inl TypeError
   \<and> sendMessage ''mark'' (JArr [JNum 1, JNum 5]) open_hook
       = Inr (True, socket_send 0 ''{\"type\":\"mark\",\"payload\":[1,5]}'' open_hook)"
proof -
  have a: "\<exists>e. sendMessage ''mark'' (JArr [JNum 1, JBigInt 5]) open_hook = Inl e"
    using send_throws_iff_encoding_throws [of "''mark''" "JArr [JNum 1, JBigInt 5]" open_hook]
      open_hook_socket by simp
  then have b: "sendMessage ''mark'' (JArr [JNum 1, JBigInt 5]) open_hook = Inl TypeError"
    by (metis exn_is_TypeError)
  have enc: "JSON_stringify_message ''mark'' (JArr [JNum 1, JNum 5])
       = Inr (Some ''{\"type\":\"mark\",\"payload\":[1,5]}'')"
    by code_simp
  have c: "sendMessage ''mark'' (JArr [JNum 1, JNum 5]) open_hook
       = Inr (True, socket_send 0 ''{\"type\":\"mark\",\"payload\":[1,5]}'' open_hook)"
    by (simp add: sendMessage_def open_hook_socket enc)
  from b c open_hook_socket show ?thesis by simp
qed

section \<open>Closing and reconnecting\<close>

text \<open>
  Claim C2. The close handler with code 1000 schedules nothing: the pending timers and
  the timer reference are as before. With any other code it schedules exactly one
  timer, due 2000 ms after the close, and records it in \<open>reconnectTimeoutRef\<close>. That
  timer cannot fire while less than 2000 ms have passed; once 2000 ms or more have
  passed it fires, and firing it is a call of \<^verbatim>\<open>connectWebSocket\<close>, which creates one
  new socket. The hypothesis is the invariant \<open>timer_ids_issued\<close>, which holds initially
  and after every run.
\<close>

theorem close_schedules_reconnect:
  assumes "timer_ids_issued st"
  shows "timers (onclose 1000 st) = timers st
     \<and> reconnectTimeoutRef (onclose 1000 st) = reconnectTimeoutRef st
     \<and> (code \<noteq> 1000 \<longrightarrow>
          timers (onclose code st) = timers st @ [(Suc (timer_count st), now st + 2000)]
          \<and> reconnectTimeoutRef (onclose code st) = Some (Suc (timer_count st))
          \<and> (d < 2000 \<longrightarrow>
               run beh [Advance d, TimerFires (Suc (timer_count st))] (onclose code st) = None)
          \<and> (2000 \<le> d \<longrightarrow>
               run beh [Advance d, TimerFires (Suc (timer_count st))] (onclose code st)
                 = Some (connectWebSocket (console_log ''Attempting to reconnect...''
                     (clearTimeout (Suc (timer_count st)) ((onclose code st)\<lparr>now := now st + d\<rparr>)))))
          \<and> socket_count (connectWebSocket st') = Suc (socket_count st'))"
proof -
  have clean: "timers (onclose 1000 st) = timers st \<and> reconnectTimeoutRef (onclose 1000 st) = reconnectTimeoutRef st"
    by (simp add: onclose_clean console_log_def)
  have m: "map_of (timers st @ [(Suc (timer_count st), now st + 2000)]) (Suc (timer_count st)) = Some (now st + 2000)"
    using assms by (intro map_of_fresh_timer) (simp add: timer_ids_issued_iff)
  have early: "run beh [Advance d, TimerFires (Suc (timer_count st))] (onclose code st) = None"
    if "code \<noteq> 1000" "d < 2000"
    using that m by (simp add: onclose_abnormal)
  have due: "run beh [Advance d, TimerFires (Suc (timer_count st))] (onclose code st)
                 = Some (connectWebSocket (console_log ''Attempting to reconnect...''
                     (clearTimeout (Suc (timer_count st)) ((onclose code st)\<lparr>now := now st + d\<rparr>))))"
    if "code \<noteq> 1000" "2000 \<le> d"
    using that m by (simp add: onclose_abnormal reconnect_callback_def)
  show ?thesis
    using clean early due by (simp add: onclose_abnormal connectWebSocket_new_socket del: run.simps)
qed


theorem close_schedules_reconnect_witness:
  "timer_ids_issued open_hook
   \<and> timers (onclose 1000 open_hook) = []
   \<and> (1006 :: nat) \<noteq> 1000
   \<and> timers (onclose 1006 open_hook) = [(1, 2000)]
   \<and> run all_return [Advance 1999, TimerFires 1] (onclose 1006 open_hook) = None
   \<and> map_option socket_count (run all_return [Advance 2000, TimerFires 1] (onclose 1006 open_hook))
       = Some 2"
proof -
  have wf: "timer_ids_issued open_hook"
    by (simp add: timer_ids_issued_def open_hook_timers)
  have a: "timers (onclose 1000 open_hook) = [] \<and> timers (onclose 1006 open_hook) = [(1, 2000)]"
    using close_schedules_reconnect [OF wf, of 1006 0 all_return open_hook]
    by (simp add: open_hook_timers del: run.simps)
  have b: "run all_return [Advance 1999, TimerFires 1] (onclose 1006 open_hook) = None"
    using close_schedules_reconnect [OF wf, of 1006 1999 all_return open_hook]
    by (simp add: open_hook_timers del: run.simps)
  have c: "map_option socket_count (run all_return [Advance 2000, TimerFires 1] (onclose 1006 open_hook))
       = Some 2"
    using close_schedules_reconnect [OF wf, of 1006 2000 all_return
        "console_log ''Attempting to reconnect...'' (clearTimeout 1 ((onclose 1006 open_hook)\<lparr>now := 2000\<rparr>))"]
    by (simp add: open_hook_timers onclose_abnormal console_log_def clearTimeout_def del: run.simps)
  from wf a b c show ?thesis by simp
qed

text \<open>
  Claim C7, at an input on which it does not hold. \<^verbatim>\<open>connectWebSocket\<close> clears the
  timer recorded in \<open>reconnectTimeoutRef\<close>, but it closes the previous socket only when it is OPEN and leaves its
  handlers installed, and the close handler stores the new timer in
  \<open>reconnectTimeoutRef\<close> without clearing the one stored there. After the effect ran
  twice and both sockets reported an abnormal close, two reconnect timers are pending
  and the reference knows the second only; a further \<^verbatim>\<open>connectWebSocket\<close> then cancels
  that one and leaves timer 1 pending.
\<close>

theorem strict_mode_outage_two_timers:
  "map_option timers (run all_return strict_mode_outage (initial ''https:'' ''bingo.example''))
     = Some [(1, 2000), (2, 2500)]
   \<and> map_option reconnectTimeoutRef (run all_return strict_mode_outage (initial ''https:'' ''bingo.example''))
     = Some (Some 2)
   \<and> map_option timers (run all_return (strict_mode_outage @ [Mount]) (initial ''https:'' ''bingo.example''))
     = Some [(1, 2000)]
   \<and> map_option reconnectTimeoutRef (run all_return (strict_mode_outage @ [Mount]) (initial ''https:'' ''bingo.example''))
     = Some None"
  by (simp add: strict_mode_outage_def handler_defs initial_def Let_def)


text \<open>
  Claim C9. \<^verbatim>\<open>connectWebSocket\<close> leaves the registry as it is, whether it is called
  by the effect or by the reconnect timer. Over any run of events (opens, messages,
  closes, errors, timers, effect runs, sends) without a subscribe or an unsubscribe
  call, the registry at the end is the registry at the start; over any run without an
  unsubscribe call, every tag's list at the end starts with its list at the start, so
  no entry is removed but by an unsubscribe.
\<close>

theorem registry_survives_reconnect:
  "messageCallbacksRef (connectWebSocket st) = messageCallbacksRef st
   \<and> messageCallbacksRef (reconnect_callback st) = messageCallbacksRef st
   \<and> (run beh evs st = Some st' \<and> (\<forall>ev \<in> set evs. \<not> is_unsubscribe ev \<and> \<not> is_subscribe ev)
        \<longrightarrow> messageCallbacksRef st' = messageCallbacksRef st)
   \<and> (run beh evs st = Some st' \<and> (\<forall>ev \<in> set evs. \<not> is_unsubscribe ev)
        \<longrightarrow> (\<exists>more. callbacks_for st' ty = callbacks_for st ty @ more))"
proof (intro conjI impI)
  show "messageCallbacksRef (connectWebSocket st) = messageCallbacksRef st"
    by (rule registry_connectWebSocket)
  show "messageCallbacksRef (reconnect_callback st) = messageCallbacksRef st"
    by (rule registry_reconnect_callback)
next
  assume h: "run beh evs st = Some st' \<and> (\<forall>ev \<in> set evs. \<not> is_unsubscribe ev \<and> \<not> is_subscribe ev)"
  show "messageCallbacksRef st' = messageCallbacksRef st"
    by (rule registry_run [OF conjunct1 [OF h] conjunct2 [OF h]])
next
  assume h: "run beh evs st = Some st' \<and> (\<forall>ev \<in> set evs. \<not> is_unsubscribe ev)"
  show "\<exists>more. callbacks_for st' ty = callbacks_for st ty @ more"
    by (rule entries_run [OF conjunct1 [OF h] conjunct2 [OF h]])
qed


theorem registry_survives_reconnect_witness:
  "map_option socket_count (run all_return abnormal_close_reconnect chat_subscribers) = Some 2
   \<and> map_option messageCallbacksRef (run all_return abnormal_close_reconnect chat_subscribers)
       = Some (messageCallbacksRef chat_subscribers)
   \<and> map_option (\<lambda>s. callbacks_for s ''chat'') (run all_return abnormal_close_reconnect chat_subscribers)
       = Some [1, 2]"
proof -
  obtain st' where r: "run all_return abnormal_close_reconnect chat_subscribers = Some st'"
    using abnormal_close_reconnect_runs by (cases "run all_return abnormal_close_reconnect chat_subscribers") auto
  have q: "\<forall>ev \<in> set abnormal_close_reconnect. \<not> is_unsubscribe ev \<and> \<not> is_subscribe ev"
    by (simp add: abnormal_close_reconnect_def)
  from registry_survives_reconnect [of chat_subscribers all_return abnormal_close_reconnect st'] r q
  have m: "messageCallbacksRef st' = messageCallbacksRef chat_subscribers" by blast
  then have "callbacks_for st' ''chat'' = callbacks_for chat_subscribers ''chat''"
    by (simp add: callbacks_for_def)
  with m r abnormal_close_reconnect_runs show ?thesis by (simp add: chat_subscribers_chat)
qed

end
